theory Spec2Isabelle
  imports Complex_Main
begin

section \<open>JavaScript values\<close>

text \<open>
  The values \<open>validate\<close> receives: \<open>undefined\<close>, \<open>null\<close>, booleans, numbers, strings,
  arrays and plain objects. A finite number is a rational (every double is one; \<open>-0\<close> and \<open>0\<close>
  are the same number here, as they are for every test the code makes); \<open>NaN\<close> and the two
  infinities are separate values. A plain object is the list of its own properties, read by
  name (the first entry of a name is the property).
\<close>

datatype jsnum = Finite rat | NaN | PosInfinity | NegInfinity

datatype jsval =
    JUndefined
  | JNull
  | JBool bool
  | JNum jsnum
  | JStr string
  | JArr "jsval list"
  | JObj "(string \<times> jsval) list"

text \<open>ToBoolean: what \<open>!value\<close> and \<open>a && b\<close> test.\<close>

fun truthy :: "jsval \<Rightarrow> bool" where
  "truthy JUndefined = False"
| "truthy JNull = False"
| "truthy (JBool b) = b"
| "truthy (JNum n) = (n \<noteq> NaN \<and> n \<noteq> Finite 0)"
| "truthy (JStr s) = (s \<noteq> [])"
| "truthy (JArr xs) = True"
| "truthy (JObj kvs) = True"

text \<open>
  \<open>o.k\<close> for a property name \<open>k\<close> (not an array index): an own property of a plain object,
  \<open>length\<close> of a string or an array, \<open>undefined\<close> otherwise. Reading a property of
  \<open>null\<close> or \<open>undefined\<close> throws in JavaScript; every read in the code below is behind a
  test that excludes both, so the last equation is never reached with them.
\<close>

fun js_prop :: "jsval \<Rightarrow> string \<Rightarrow> jsval" where
  "js_prop (JObj kvs) k = (case map_of kvs k of Some v \<Rightarrow> v | None \<Rightarrow> JUndefined)"
| "js_prop (JStr s) k = (if k = ''length'' then JNum (Finite (of_nat (length s))) else JUndefined)"
| "js_prop (JArr xs) k = (if k = ''length'' then JNum (Finite (of_nat (length xs))) else JUndefined)"
| "js_prop v k = JUndefined"

subsection \<open>ToString\<close>

definition digit_char :: "nat \<Rightarrow> char" where
  "digit_char d = char_of (48 + d)"

fun nat_digits :: "nat \<Rightarrow> string" where
  "nat_digits n = (if n < 10 then [digit_char n] else nat_digits (n div 10) @ [digit_char (n mod 10)])"

text \<open>
  Number to string. An integer below \<open>10^21\<close> in magnitude is printed as its decimal digits.
  Every other finite number is printed with a fraction point or an exponent; that text is
  not built here (\<open>None\<close>): the two places that read it, the phone-number pattern and the
  lookup of a type tag, only need that it holds a character \<open>.\<close> or \<open>e\<close>.
\<close>

fun num_to_string :: "jsnum \<Rightarrow> string option" where
  "num_to_string NaN = Some ''NaN''"
| "num_to_string PosInfinity = Some ''Infinity''"
| "num_to_string NegInfinity = Some ''-Infinity''"
| "num_to_string (Finite q) =
     (if of_int \<lfloor>q\<rfloor> = q \<and> \<bar>q\<bar> < 10 ^ 21
      then Some ((if q < 0 then ''-'' else []) @ nat_digits (nat \<bar>\<lfloor>q\<rfloor>\<bar>))
      else None)"

fun join_strings :: "string \<Rightarrow> string option list \<Rightarrow> string option" where
  "join_strings sep [] = Some []"
| "join_strings sep [x] = x"
| "join_strings sep (x # y # ys) =
     (case (x, join_strings sep (y # ys)) of
        (Some a, Some b) \<Rightarrow> Some (a @ sep @ b)
      | _ \<Rightarrow> None)"

text \<open>
  ToString. An array is its elements joined by a comma, \<open>null\<close> and \<open>undefined\<close>
  elements giving the empty string; a plain object is \<open>[object Object]\<close>. Objects are
  taken with the conversion methods they inherit: an object that overrides \<open>toString\<close> or
  \<open>valueOf\<close> is outside these values.
\<close>

fun to_string :: "jsval \<Rightarrow> string option" where
  "to_string JUndefined = Some ''undefined''"
| "to_string JNull = Some ''null''"
| "to_string (JBool b) = Some (if b then ''true'' else ''false'')"
| "to_string (JNum n) = num_to_string n"
| "to_string (JStr s) = Some s"
| "to_string (JArr xs) =
     join_strings '','' (map (\<lambda>x. if x = JNull \<or> x = JUndefined then Some [] else to_string x) xs)"
| "to_string (JObj kvs) = Some ''[object Object]''"

text \<open>
  \<open>[a, b, ...].join(sep)\<close> and string literals, kept as the expression the code evaluates:
  the code builds its messages and the request path by joining a fixed text with a value
  of the caller's.
\<close>

datatype jstext = Lit string | Joined "jsval list" string


subsection \<open>Numeric strings, ToNumber and the relational operators\<close>

definition is_digit :: "char \<Rightarrow> bool" where
  "is_digit c = (c \<in> set ''0123456789'')"

definition digits_value :: "string \<Rightarrow> nat" where
  "digits_value ds = foldl (\<lambda>acc c. 10 * acc + (of_char c - 48)) 0 ds"

text \<open>
  A decimal literal: an optional minus sign, one or more digits, and optionally a point
  followed by one or more digits.
\<close>

definition unsigned_decimal :: "string \<Rightarrow> bool" where
  "unsigned_decimal s =
     (let ip = takeWhile is_digit s; rest = dropWhile is_digit s
      in ip \<noteq> [] \<and>
         (rest = [] \<or> (hd rest = CHR ''.'' \<and> tl rest \<noteq> [] \<and> list_all is_digit (tl rest))))"

definition decimal_string :: "string \<Rightarrow> bool" where
  "decimal_string s =
     (case s of c # cs \<Rightarrow> if c = CHR ''-'' then unsigned_decimal cs else unsigned_decimal s
              | [] \<Rightarrow> False)"

definition unsigned_value :: "string \<Rightarrow> rat" where
  "unsigned_value s =
     (let ip = takeWhile is_digit s; fp = drop 1 (dropWhile is_digit s)
      in of_nat (digits_value ip) + of_nat (digits_value fp) / 10 ^ length fp)"

definition decimal_value :: "string \<Rightarrow> rat" where
  "decimal_value s =
     (case s of c # cs \<Rightarrow> if c = CHR ''-'' then - unsigned_value cs else unsigned_value s
              | [] \<Rightarrow> 0)"

text \<open>
  ToNumber. The code compares a value with a bound only after \<open>isNumeric\<close> accepted both
  (\<open>numberMinMaxValidation\<close>, \<open>isLargerThanMin\<close>, \<open>isSmallerThanMax\<close>), and a length with
  a bound only after \<open>isInteger\<close> accepted both: the operands are finite numbers or decimal
  literals. A string is converted when it is such a literal; every other string, array and
  object counts as \<open>NaN\<close> here.
\<close>

fun to_number :: "jsval \<Rightarrow> jsnum" where
  "to_number JUndefined = NaN"
| "to_number JNull = Finite 0"
| "to_number (JBool b) = Finite (if b then 1 else 0)"
| "to_number (JNum n) = n"
| "to_number (JStr s) = (if decimal_string s then Finite (decimal_value s) else NaN)"
| "to_number (JArr xs) = NaN"
| "to_number (JObj kvs) = NaN"

text \<open>\<open>x < y\<close> on numbers; \<open>None\<close> is the undefined result of a comparison with \<open>NaN\<close>.\<close>

fun num_less :: "jsnum \<Rightarrow> jsnum \<Rightarrow> bool option" where
  "num_less NaN y = None"
| "num_less x NaN = None"
| "num_less (Finite a) (Finite b) = Some (a < b)"
| "num_less PosInfinity y = Some False"
| "num_less x PosInfinity = Some True"
| "num_less x NegInfinity = Some False"
| "num_less NegInfinity y = Some True"

text \<open>\<open>x < y\<close> on strings: by code unit, a proper prefix being smaller.\<close>

fun str_less :: "string \<Rightarrow> string \<Rightarrow> bool" where
  "str_less [] [] = False"
| "str_less [] (d # ds) = True"
| "str_less (c # cs) [] = False"
| "str_less (c # cs) (d # ds) =
     (if c = d then str_less cs ds else (of_char c :: nat) < of_char d)"

text \<open>The abstract relational comparison, and the four operators defined from it.\<close>

definition relational :: "jsval \<Rightarrow> jsval \<Rightarrow> bool option" where
  "relational x y =
     (case (x, y) of
        (JStr a, JStr b) \<Rightarrow> Some (str_less a b)
      | _ \<Rightarrow> num_less (to_number x) (to_number y))"

definition js_lt :: "jsval \<Rightarrow> jsval \<Rightarrow> bool" where
  "js_lt x y = (relational x y = Some True)"

definition js_gt :: "jsval \<Rightarrow> jsval \<Rightarrow> bool" where
  "js_gt x y = (relational y x = Some True)"

definition js_ge :: "jsval \<Rightarrow> jsval \<Rightarrow> bool" where
  "js_ge x y = (relational x y = Some False)"

definition js_le :: "jsval \<Rightarrow> jsval \<Rightarrow> bool" where
  "js_le x y = (relational y x = Some False)"

section \<open>The helpers imported from \<open>d2/lib/check\<close>\<close>

text \<open>
  \<open>ModelValidation.js\<close> imports \<open>isInteger\<close>, \<open>isNumeric\<close>, \<open>isArray\<close>, \<open>isString\<close> and
  \<open>isObject\<close> from \<open>d2/lib/check\<close>, which is not among the sources. Each is modelled
  from the row of the spec's type table that uses it.
\<close>

text \<open>Modelled from the spec: \<open>isInteger\<close> of \<open>d2/lib/check\<close> is missing; the spec says
  ``value is an integer''.\<close>

fun isInteger :: "jsval \<Rightarrow> bool" where
  "isInteger (JNum (Finite q)) = (of_int \<lfloor>q\<rfloor> = q)"
| "isInteger v = False"

text \<open>Modelled from the spec: \<open>isNumeric\<close> of \<open>d2/lib/check\<close> is missing; the spec says
  ``value is numeric (integer or float, optionally as numeric string)''. A numeric string
  is taken to be a decimal literal.\<close>

fun isNumeric :: "jsval \<Rightarrow> bool" where
  "isNumeric (JNum (Finite q)) = True"
| "isNumeric (JStr s) = decimal_string s"
| "isNumeric v = False"

text \<open>Modelled from the spec: \<open>isArray\<close> of \<open>d2/lib/check\<close> is missing; the spec says
  ``value is an ordered sequence''.\<close>

fun isArray :: "jsval \<Rightarrow> bool" where
  "isArray (JArr xs) = True"
| "isArray v = False"

text \<open>Modelled from the spec: \<open>isString\<close> of \<open>d2/lib/check\<close> is missing; the spec says
  ``value is a string''.\<close>

fun isString :: "jsval \<Rightarrow> bool" where
  "isString (JStr s) = True"
| "isString v = False"

text \<open>Modelled from the spec: \<open>isObject\<close> of \<open>d2/lib/check\<close> is missing; the spec says
  ``value is an object/mapping'' and, of the rule, ``a plain mapping/object''.\<close>

fun isObject :: "jsval \<Rightarrow> bool" where
  "isObject (JObj kvs) = True"
| "isObject v = False"

section \<open>ModelValidation.js\<close>

subsection \<open>Results, errors and the module's state\<close>

text \<open>
  An entry of \<open>messages\<close>, \<open>{message: ..., value: ...}\<close>; the field \<open>value\<close> is \<open>val\<close>
  here.
\<close>

record ValidationMessage =
  message :: jstext
  val :: jsval

record ValidationResult =
  status :: bool
  messages :: "ValidationMessage list"

datatype error = TypeError string

text \<open>
  An entry of the table of type specific validations, \<open>{message: ..., validator: ...}\<close>;
  the field \<open>message\<close> is \<open>cv_message\<close> here.
\<close>

record customValidator =
  cv_message :: string
  validator :: "jsval \<Rightarrow> bool"

text \<open>
  The module's two variables: \<open>logger\<close>, here the calls its \<open>log\<close> method has received
  (each call is the list of its arguments), and \<open>typeSpecificValidations\<close>, the table from
  type tag to the validators of that type.
\<close>

record module_state =
  logger :: "jsval list list"
  typeSpecificValidations :: "(string \<times> customValidator list) list"

text \<open>
  \<open>phoneNumberRegEx.test(value)\<close>: the pattern \<open>/^[0-9\+ ]+$/\<close> is matched against
  ToString of the value. The pattern has no \<open>g\<close> flag, so \<open>test\<close> keeps no position
  between calls. A number whose text is not built by \<open>num_to_string\<close> holds a point or an
  exponent and does not match.
\<close>

definition phoneNumber :: "jsval \<Rightarrow> bool" where
  "phoneNumber v =
     (case to_string v of
        Some s \<Rightarrow> s \<noteq> [] \<and> list_all (\<lambda>c. is_digit c \<or> c = CHR ''+'' \<or> c = CHR '' '') s
      | None \<Rightarrow> False)"

text \<open>The state once the module is loaded and a \<open>ModelValidation\<close> is constructed.\<close>

definition loaded :: module_state where
  "loaded =
     \<lparr>logger = [],
      typeSpecificValidations =
        [(''PHONENUMBER'',
          [\<lparr>cv_message = ''Phone number can only consist of numbers and + and [space]'',
            validator = phoneNumber\<rparr>])]\<rparr>"

text \<open>
  \<open>typeSpecificValidations[valueType]\<close>: the key is ToString of the tag. The table's keys
  are type names, so the text of a number that \<open>num_to_string\<close> does not build is none
  of them; what the table inherits from \<open>Object.prototype\<close> is not an array and counts as
  no entry.
\<close>

definition registry_entry :: "module_state \<Rightarrow> jsval \<Rightarrow> customValidator list option" where
  "registry_entry s valueType =
     (case to_string valueType of
        Some k \<Rightarrow> map_of (typeSpecificValidations s) k
      | None \<Rightarrow> None)"

subsection \<open>The checks\<close>

definition typeValidation :: "module_state \<Rightarrow> jsval \<Rightarrow> jsval \<Rightarrow> bool \<times> module_state" where
  "typeValidation s v t =
     (if t = JStr ''INTEGER'' then (isInteger v, s)
      else if t = JStr ''NUMBER'' then (isNumeric v, s)
      else if t = JStr ''COLLECTION'' then (isArray v, s)
      else if t \<in> set (map JStr [''PHONENUMBER'', ''EMAIL'', ''URL'', ''COLOR'', ''PASSWORD'',
                                  ''IDENTIFIER'', ''TEXT'']) then (isString v, s)
      else if t = JStr ''COMPLEX'' then (isObject v, s)
      else if t \<in> set (map JStr [''DATE'', ''REFERENCE'', ''BOOLEAN'', ''CONSTANT'']) then (True, s)
      else (False, s\<lparr>logger := logger s @ [[JStr ''No type validator found for'', t]]\<rparr>))"

definition isLargerThanMin :: "jsval \<Rightarrow> jsval \<Rightarrow> bool" where
  "isLargerThanMin v minValue = (if isNumeric minValue then js_ge v minValue else True)"

definition isSmallerThanMax :: "jsval \<Rightarrow> jsval \<Rightarrow> bool" where
  "isSmallerThanMax v maxValue = (if isNumeric maxValue then js_le v maxValue else True)"

definition isLargerThanLength :: "jsval \<Rightarrow> jsval \<Rightarrow> bool" where
  "isLargerThanLength v minValue =
     (if \<not> isInteger minValue then True
      else truthy v \<and> isInteger (js_prop v ''length'') \<and> js_ge (js_prop v ''length'') minValue)"

definition isSmallerThanLength :: "jsval \<Rightarrow> jsval \<Rightarrow> bool" where
  "isSmallerThanLength v maxValue =
     (if \<not> isInteger maxValue then True
      else truthy v \<and> isInteger (js_prop v ''length'') \<and> js_le (js_prop v ''length'') maxValue)"

definition fail_with :: "ValidationResult \<Rightarrow> jstext \<Rightarrow> jsval \<Rightarrow> ValidationResult" where
  \<comment> \<open>\<open>r.status = false; r.messages.push({message: m, value: v})\<close>\<close>
  "fail_with r m v = r\<lparr>status := False, messages := messages r @ [\<lparr>message = m, val = v\<rparr>]\<rparr>"

definition numberMinMaxValidation :: "jsval \<Rightarrow> jsval \<Rightarrow> ValidationResult" where
  "numberMinMaxValidation v validationSettings =
     (let resultStatus = \<lparr>status = True, messages = []\<rparr>
      in if isNumeric v then
           (let resultStatus =
                  (if \<not> isLargerThanMin v (js_prop validationSettings ''min'')
                   then fail_with resultStatus
                          (Joined [JStr ''Value needs to be larger than or equal to'',
                                   js_prop validationSettings ''min''] '' '') v
                   else resultStatus)
            in if \<not> isSmallerThanMax v (js_prop validationSettings ''max'')
               then fail_with resultStatus
                      (Joined [JStr ''Value needs to be smaller than or equal to'',
                               js_prop validationSettings ''max''] '' '') v
               else resultStatus)
         else resultStatus)"

definition lengthMinMaxValidation :: "jsval \<Rightarrow> jsval \<Rightarrow> ValidationResult" where
  "lengthMinMaxValidation v validationSettings =
     (let resultStatus = \<lparr>status = True, messages = []\<rparr>
      in if isArray v \<or> isString v then
           (let resultStatus =
                  (if \<not> isLargerThanLength v (js_prop validationSettings ''min'')
                   then fail_with resultStatus
                          (Joined [JStr ''Value needs to be longer than or equal to'',
                                   js_prop validationSettings ''min''] '' '') v
                   else resultStatus)
            in if \<not> isSmallerThanLength v (js_prop validationSettings ''max'')
               then fail_with resultStatus
                      (Joined [JStr ''Value needs to be shorter than or equal to'',
                               js_prop validationSettings ''max''] '' '') v
               else resultStatus)
         else resultStatus)"

definition minMaxValidation :: "ValidationResult \<Rightarrow> jsval \<Rightarrow> jsval \<Rightarrow> ValidationResult" where
  "minMaxValidation result v validationSettings =
     (let numberMinMaxValidationStatus = numberMinMaxValidation v validationSettings;
          result =
            (if \<not> status numberMinMaxValidationStatus
             then result\<lparr>status := False,
                         messages := messages result @ messages numberMinMaxValidationStatus\<rparr>
             else result);
          lengthMinMaxValidationStatus = lengthMinMaxValidation v validationSettings
      in if \<not> status lengthMinMaxValidationStatus
         then result\<lparr>status := False,
                     messages := messages result @ messages lengthMinMaxValidationStatus\<rparr>
         else result)"

text \<open>
  The \<open>reduce\<close> of \<open>typeSpecificValidation\<close>: the accumulator is the status so far, starting
  at \<open>true\<close>; a validator that rejects the value pushes its message onto \<open>result.messages\<close>.
\<close>

fun run_validators ::
  "customValidator list \<Rightarrow> jsval \<Rightarrow> bool \<Rightarrow> ValidationMessage list \<Rightarrow> bool \<times> ValidationMessage list"
where
  "run_validators [] v currentValidationStatus msgs = (currentValidationStatus, msgs)"
| "run_validators (customValidator # rest) v currentValidationStatus msgs =
     (if \<not> validator customValidator v
      then run_validators rest v False (msgs @ [\<lparr>message = Lit (cv_message customValidator), val = v\<rparr>])
      else run_validators rest v currentValidationStatus msgs)"

definition typeSpecificValidation ::
  "module_state \<Rightarrow> ValidationResult \<Rightarrow> jsval \<Rightarrow> jsval \<Rightarrow> ValidationResult" where
  "typeSpecificValidation s result v valueType =
     (if \<not> truthy valueType then result
      else case registry_entry s valueType of
             None \<Rightarrow> result
           | Some validators \<Rightarrow>
               (let (st, msgs) = run_validators validators v True (messages result)
                in result\<lparr>status := st, messages := msgs\<rparr>))"

subsection \<open>\<open>validate\<close> and \<open>validateAgainstSchema\<close>\<close>

definition validate ::
  "module_state \<Rightarrow> jsval \<Rightarrow> jsval \<Rightarrow> (error + ValidationResult) \<times> module_state" where
  "validate s validationSettings v =
     (if \<not> isObject validationSettings
      then (Inl (TypeError ''validationSettings should be of type object''), s)
      else if js_prop validationSettings ''required'' = JBool False \<and> \<not> truthy v
      then (Inr \<lparr>status = True, messages = []\<rparr>, s)
      else
        (let result = \<lparr>status = True, messages = []\<rparr>;
             (ok, s') = typeValidation s v (js_prop validationSettings ''type'');
             result = (if \<not> ok then fail_with result (Lit ''This is not a valid type'') v
                       else result);
             result = minMaxValidation result v validationSettings;
             result = typeSpecificValidation s' result v (js_prop validationSettings ''type'')
         in (Inr result, s')))"




subsection \<open>Notions of the specification\<close>

text \<open>The type tags: the \<open>case\<close> labels of \<open>typeValidation\<close>, in the order of the switch.\<close>

definition TypeTag :: "string list" where
  "TypeTag = [''INTEGER'', ''NUMBER'', ''COLLECTION'', ''PHONENUMBER'', ''EMAIL'', ''URL'', ''COLOR'',
              ''PASSWORD'', ''IDENTIFIER'', ''TEXT'', ''COMPLEX'', ''DATE'', ''REFERENCE'', ''BOOLEAN'',
              ''CONSTANT'']"


section \<open>Properties\<close>

subsection \<open>Auxiliary facts\<close>

lemmas check_defs =
  validate_def typeValidation_def minMaxValidation_def numberMinMaxValidation_def
  lengthMinMaxValidation_def typeSpecificValidation_def registry_entry_def loaded_def
  isLargerThanMin_def isSmallerThanMax_def isLargerThanLength_def isSmallerThanLength_def
  fail_with_def js_ge_def js_le_def js_lt_def js_gt_def relational_def Let_def
  phoneNumber_def is_digit_def decimal_string_def unsigned_decimal_def

lemma falsy_values:
  "\<not> truthy v \<longleftrightarrow>
     v \<in> {JStr [], JNum (Finite 0), JNum NaN, JNull, JUndefined, JBool False}"
  by (cases v) auto

lemma isNumeric_cases:
  "isNumeric v \<Longrightarrow> (\<exists>q. v = JNum (Finite q)) \<or> (\<exists>s. v = JStr s \<and> decimal_string s)"
  by (cases v rule: isNumeric.cases) auto

lemma relational_numeric:
  assumes "isNumeric a" "isNumeric b"
  shows "\<exists>r. relational a b = Some r"
  using isNumeric_cases [OF assms(1)] isNumeric_cases [OF assms(2)]
  by (auto simp: relational_def)

lemma js_ge_numeric: "isNumeric a \<Longrightarrow> isNumeric b \<Longrightarrow> js_ge a b = (\<not> js_lt a b)"
  using relational_numeric [of a b] by (auto simp: js_ge_def js_lt_def)

lemma js_le_numeric: "isNumeric a \<Longrightarrow> isNumeric b \<Longrightarrow> js_le a b = (\<not> js_gt a b)"
  using relational_numeric [of b a] by (auto simp: js_le_def js_gt_def)

lemma number_ok_no_messages:
  "status (numberMinMaxValidation v rule) \<Longrightarrow> messages (numberMinMaxValidation v rule) = []"
  by (simp add: numberMinMaxValidation_def fail_with_def Let_def split: if_splits)

lemma length_ok_no_messages:
  "status (lengthMinMaxValidation v rule) \<Longrightarrow> messages (lengthMinMaxValidation v rule) = []"
  by (simp add: lengthMinMaxValidation_def fail_with_def Let_def split: if_splits)

lemma minMaxValidation_eq:
  "minMaxValidation r v rule =
     r\<lparr>status := status r \<and> status (numberMinMaxValidation v rule)
                  \<and> status (lengthMinMaxValidation v rule),
       messages := messages r @ messages (numberMinMaxValidation v rule)
                   @ messages (lengthMinMaxValidation v rule)\<rparr>"
  by (simp add: minMaxValidation_def Let_def number_ok_no_messages length_ok_no_messages)



lemma typeValidation_registry:
  "typeSpecificValidations (snd (typeValidation s v t)) = typeSpecificValidations s"
  by (simp add: typeValidation_def)

lemma typeSpecificValidation_registry:
  "typeSpecificValidations s' = typeSpecificValidations s \<Longrightarrow>
   typeSpecificValidation s' r v t = typeSpecificValidation s r v t"
  by (simp add: typeSpecificValidation_def registry_entry_def split: option.splits)

lemma validate_registry:
  "typeSpecificValidations (snd (validate s rule v)) = typeSpecificValidations s"
  by (simp add: validate_def Let_def split_beta typeValidation_registry)

lemma validate_same_registry:
  assumes eq: "typeSpecificValidations s' = typeSpecificValidations s"
  shows "fst (validate s' rule v) = fst (validate s rule v)"
proof -
  have t: "fst (typeValidation s' v t) = fst (typeValidation s v t)" for t
    by (simp add: typeValidation_def)
  have r': "typeSpecificValidation (snd (typeValidation s' v t)) r v t' = typeSpecificValidation s r v t'"
    for t r t'
    by (rule typeSpecificValidation_registry) (simp add: typeValidation_registry eq)
  have r: "typeSpecificValidation (snd (typeValidation s v t)) r v t' = typeSpecificValidation s r v t'"
    for t r t'
    by (rule typeSpecificValidation_registry) (simp add: typeValidation_registry)
  show ?thesis
    by (simp add: validate_def Let_def split_beta t r r')
qed



lemma isInteger_isNumeric: "isInteger v \<Longrightarrow> isNumeric v"
  by (cases v rule: isInteger.cases) auto

lemma length_is_integer: "isArray v \<or> isString v \<Longrightarrow> isInteger (js_prop v ''length'')"
  by (cases v) auto

lemma number_status_iff:
  "status (numberMinMaxValidation v rule) = (messages (numberMinMaxValidation v rule) = [])"
  by (simp add: numberMinMaxValidation_def fail_with_def Let_def)

lemma length_status_iff:
  "status (lengthMinMaxValidation v rule) = (messages (lengthMinMaxValidation v rule) = [])"
  by (simp add: lengthMinMaxValidation_def fail_with_def Let_def)


lemma typeValidation_entry:
  "registry_entry (snd (typeValidation s v t)) t' = registry_entry s t'"
  by (simp add: registry_entry_def typeValidation_registry cong: option.case_cong)

lemma no_validators_no_change:
  assumes "\<not> truthy t \<or> registry_entry s t = None"
  shows "typeSpecificValidation (snd (typeValidation s v t)) r v t = r"
  using assms by (auto simp: typeSpecificValidation_def typeValidation_entry)

lemma typeValidation_only_logs:
  "\<exists>calls. snd (typeValidation s v t) = s\<lparr>logger := logger s @ calls\<rparr>"
proof (cases "snd (typeValidation s v t) = s")
  case True
  then have "snd (typeValidation s v t) = s\<lparr>logger := logger s @ []\<rparr>" by simp
  then show ?thesis by blast
next
  case False
  then have "snd (typeValidation s v t)
             = s\<lparr>logger := logger s @ [[JStr ''No type validator found for'', t]]\<rparr>"
    by (simp add: typeValidation_def split: if_splits)
  then show ?thesis by blast
qed

lemma validate_only_logs:
  "\<exists>calls. snd (validate s rule v) = s\<lparr>logger := logger s @ calls\<rparr>"
proof (cases "snd (validate s rule v) = s")
  case True
  then have "snd (validate s rule v) = s\<lparr>logger := logger s @ []\<rparr>" by simp
  then show ?thesis by blast
next
  case False
  then have "snd (validate s rule v) = snd (typeValidation s v (js_prop rule ''type''))"
    by (simp add: validate_def Let_def split_beta split: if_splits)
  then show ?thesis
    using typeValidation_only_logs [of s v "js_prop rule ''type''"] by simp
qed

subsection \<open>The result invariant\<close>

text \<open>
  Claim C1: the result of \<open>validate\<close> has \<open>status\<close> true exactly when \<open>messages\<close> is
  empty, and no later check sets \<open>status\<close> back to true once a check has set it to false.
  The code does otherwise for a rule \<open>{type: 'PHONENUMBER', max: 5}\<close> and the value
  \<open>'555 0100'\<close>: after the bounds check the status is false, \<open>typeSpecificValidation\<close>
  then assigns the outcome of its own \<open>reduce\<close>, which starts from \<open>true\<close>, and the
  result has status \<open>true\<close> with one message.
\<close>

theorem type_specific_validation_resets_status:
  "status (minMaxValidation \<lparr>status = True, messages = []\<rparr> (JStr ''555 0100'')
             (JObj [(''type'', JStr ''PHONENUMBER''), (''max'', JNum (Finite 5))])) = False
   \<and> validate loaded (JObj [(''type'', JStr ''PHONENUMBER''), (''max'', JNum (Finite 5))])
         (JStr ''555 0100'')
       = (Inr \<lparr>status = True,
               messages =
                 [\<lparr>message = Joined [JStr ''Value needs to be shorter than or equal to'',
                                      JNum (Finite 5)] '' '',
                   val = JStr ''555 0100''\<rparr>]\<rparr>,
          loaded)"
  by (simp add: check_defs)

text \<open>
  Where the tag has no registered validators (every tag but \<open>PHONENUMBER\<close>), the status
  of a result is true exactly when it has no message.
\<close>

lemma status_iff_no_messages_without_validators:
  assumes val: "validate s rule v = (Inr r, s')"
    and none: "\<not> truthy (js_prop rule ''type'') \<or> registry_entry s (js_prop rule ''type'') = None"
  shows "status r = (messages r = [])"
proof (cases "js_prop rule ''required'' = JBool False \<and> \<not> truthy v")
  case True
  with val show ?thesis
    by (auto simp: validate_def split: if_splits)
next
  case False
  let ?t = "js_prop rule ''type''"
  let ?typed = "if fst (typeValidation s v ?t) then \<lparr>status = True, messages = []\<rparr>
                else fail_with \<lparr>status = True, messages = []\<rparr> (Lit ''This is not a valid type'') v"
  have obj: "isObject rule"
    using val by (auto simp: validate_def split: if_splits)
  have "validate s rule v = (Inr (minMaxValidation ?typed v rule), snd (typeValidation s v ?t))"
    using obj False
    by (auto simp: validate_def Let_def split_beta no_validators_no_change [OF none])
  with val have r: "r = minMaxValidation ?typed v rule"
    by simp
  show ?thesis
    unfolding r minMaxValidation_eq
    by (simp add: fail_with_def number_status_iff length_status_iff)
qed

subsection \<open>Composition of the result\<close>

text \<open>
  Claim C2: outside the short-circuit, the final status is the conjunction of the type
  check, the absence of bounds failures and the type specific check. The code does
  otherwise for a rule \<open>{type: 'PHONENUMBER', min: 10}\<close> and the value \<open>'+47 123'\<close>: the
  type check and the phone-number check pass, the length check fails, and the final status
  is \<open>true\<close>.
\<close>

theorem status_is_not_the_conjunction:
  "fst (typeValidation loaded (JStr ''+47 123'') (JStr ''PHONENUMBER'')) = True
   \<and> status (lengthMinMaxValidation (JStr ''+47 123'')
               (JObj [(''type'', JStr ''PHONENUMBER''), (''min'', JNum (Finite 10))])) = False
   \<and> phoneNumber (JStr ''+47 123'') = True
   \<and> validate loaded (JObj [(''type'', JStr ''PHONENUMBER''), (''min'', JNum (Finite 10))])
         (JStr ''+47 123'')
       = (Inr \<lparr>status = True,
               messages =
                 [\<lparr>message = Joined [JStr ''Value needs to be longer than or equal to'',
                                      JNum (Finite 10)] '' '',
                   val = JStr ''+47 123''\<rparr>]\<rparr>,
          loaded)"
  by (simp add: check_defs)


subsection \<open>The short-circuit\<close>

text \<open>
  Claim C3: for a rule object with \<open>required === false\<close> and a falsy value (by
  \<open>falsy_values\<close>: the empty string, \<open>0\<close>, \<open>NaN\<close>, \<open>null\<close>, \<open>undefined\<close>, \<open>false\<close>),
  \<open>validate\<close> returns \<open>{status: true, messages: []}\<close> whatever the rule's type and bounds
  are, and nothing is logged: no check has run.
\<close>

theorem optional_and_absent_is_valid:
  assumes "isObject rule" and "js_prop rule ''required'' = JBool False" and "\<not> truthy v"
  shows "validate s rule v = (Inr \<lparr>status = True, messages = []\<rparr>, s)"
  using assms by (simp add: validate_def)

theorem optional_and_absent_is_valid_witness:
  "isObject (JObj [(''type'', JStr ''INTEGER''), (''min'', JNum (Finite 5)), (''required'', JBool False)])
   \<and> js_prop (JObj [(''type'', JStr ''INTEGER''), (''min'', JNum (Finite 5)), (''required'', JBool False)])
        ''required'' = JBool False
   \<and> \<not> truthy (JStr [])
   \<and> validate loaded
        (JObj [(''type'', JStr ''INTEGER''), (''min'', JNum (Finite 5)), (''required'', JBool False)])
        (JStr [])
       = (Inr \<lparr>status = True, messages = []\<rparr>, loaded)"
  using optional_and_absent_is_valid
    [of "JObj [(''type'', JStr ''INTEGER''), (''min'', JNum (Finite 5)), (''required'', JBool False)]"
        "JStr []" loaded]
  by simp

subsection \<open>Length bounds\<close>

text \<open>
  Claim C4: for a string or an array, the length check fails exactly when the length is
  below an integer \<open>min\<close> or above an integer \<open>max\<close>. The code does otherwise for the
  empty string: \<open>isSmallerThanLength\<close> tests \<open>value && ...\<close>, the empty string is falsy,
  and with \<open>{type: 'TEXT', max: 10}\<close> the length \<open>0\<close>, which is not above \<open>10\<close>, fails
  with the message that the value must be shorter.
\<close>

theorem empty_string_fails_length_bound:
  "js_prop (JStr []) ''length'' = JNum (Finite 0)
   \<and> \<not> js_gt (JNum (Finite 0)) (JNum (Finite 10))
   \<and> lengthMinMaxValidation (JStr []) (JObj [(''type'', JStr ''TEXT''), (''max'', JNum (Finite 10))])
       = \<lparr>status = False,
          messages =
            [\<lparr>message = Joined [JStr ''Value needs to be shorter than or equal to'',
                                 JNum (Finite 10)] '' '',
              val = JStr []\<rparr>]\<rparr>
   \<and> validate loaded (JObj [(''type'', JStr ''TEXT''), (''max'', JNum (Finite 10))]) (JStr [])
       = (Inr \<lparr>status = False,
               messages =
                 [\<lparr>message = Joined [JStr ''Value needs to be shorter than or equal to'',
                                      JNum (Finite 10)] '' '',
                   val = JStr []\<rparr>]\<rparr>,
          loaded)"
  by (simp add: check_defs)

text \<open>
  For an array or a non-empty string the length check passes exactly when the length is
  neither below an integer \<open>min\<close> nor above an integer \<open>max\<close>.
\<close>

lemma length_bounds_of_truthy_value:
  assumes "isArray v \<or> isString v" and "truthy v"
  shows "status (lengthMinMaxValidation v rule) =
           (\<not> (isInteger (js_prop rule ''min'') \<and> js_lt (js_prop v ''length'') (js_prop rule ''min''))
            \<and> \<not> (isInteger (js_prop rule ''max'') \<and> js_gt (js_prop v ''length'') (js_prop rule ''max'')))"
  using assms length_is_integer [OF assms(1)]
  by (auto simp: lengthMinMaxValidation_def isLargerThanLength_def isSmallerThanLength_def
        fail_with_def Let_def js_ge_numeric js_le_numeric isInteger_isNumeric)

subsection \<open>Numeric bounds\<close>

text \<open>
  Claim C5: the numeric bounds check applies only to a numeric value; it fails with the
  ``larger than or equal to'' message when the value is below a numeric \<open>min\<close> and with
  the ``smaller than or equal to'' message when it is above a numeric \<open>max\<close>. With the
  rule \<open>{type: 'NUMBER', min: 5, max: 10}\<close>, the value \<open>12\<close> gives status \<open>false\<close> and
  the max message alone, and the value \<open>7\<close> gives status \<open>true\<close>.
\<close>

theorem numeric_bounds:
  "numberMinMaxValidation v rule =
     (if isNumeric v
      then \<lparr>status = \<not> (isNumeric (js_prop rule ''min'') \<and> js_lt v (js_prop rule ''min''))
                     \<and> \<not> (isNumeric (js_prop rule ''max'') \<and> js_gt v (js_prop rule ''max'')),
            messages =
              (if isNumeric (js_prop rule ''min'') \<and> js_lt v (js_prop rule ''min'')
               then [\<lparr>message = Joined [JStr ''Value needs to be larger than or equal to'',
                                         js_prop rule ''min''] '' '', val = v\<rparr>]
               else [])
              @ (if isNumeric (js_prop rule ''max'') \<and> js_gt v (js_prop rule ''max'')
                 then [\<lparr>message = Joined [JStr ''Value needs to be smaller than or equal to'',
                                           js_prop rule ''max''] '' '', val = v\<rparr>]
                 else [])\<rparr>
      else \<lparr>status = True, messages = []\<rparr>)
   \<and> validate loaded
        (JObj [(''type'', JStr ''NUMBER''), (''min'', JNum (Finite 5)), (''max'', JNum (Finite 10))])
        (JNum (Finite 12))
       = (Inr \<lparr>status = False,
               messages =
                 [\<lparr>message = Joined [JStr ''Value needs to be smaller than or equal to'',
                                      JNum (Finite 10)] '' '',
                   val = JNum (Finite 12)\<rparr>]\<rparr>,
          loaded)
   \<and> validate loaded
        (JObj [(''type'', JStr ''NUMBER''), (''min'', JNum (Finite 5)), (''max'', JNum (Finite 10))])
        (JNum (Finite 7))
       = (Inr \<lparr>status = True, messages = []\<rparr>, loaded)"
proof (intro conjI)
  show "numberMinMaxValidation v rule =
     (if isNumeric v
      then \<lparr>status = \<not> (isNumeric (js_prop rule ''min'') \<and> js_lt v (js_prop rule ''min''))
                     \<and> \<not> (isNumeric (js_prop rule ''max'') \<and> js_gt v (js_prop rule ''max'')),
            messages =
              (if isNumeric (js_prop rule ''min'') \<and> js_lt v (js_prop rule ''min'')
               then [\<lparr>message = Joined [JStr ''Value needs to be larger than or equal to'',
                                         js_prop rule ''min''] '' '', val = v\<rparr>]
               else [])
              @ (if isNumeric (js_prop rule ''max'') \<and> js_gt v (js_prop rule ''max'')
                 then [\<lparr>message = Joined [JStr ''Value needs to be smaller than or equal to'',
                                           js_prop rule ''max''] '' '', val = v\<rparr>]
                 else [])\<rparr>
      else \<lparr>status = True, messages = []\<rparr>)"
    by (simp add: numberMinMaxValidation_def isLargerThanMin_def isSmallerThanMax_def
          fail_with_def js_ge_numeric js_le_numeric Let_def)
qed (simp_all add: check_defs)

theorem numeric_bounds_witness:
  "isNumeric (JNum (Finite 3))
   \<and> numberMinMaxValidation (JNum (Finite 3))
        (JObj [(''type'', JStr ''NUMBER''), (''min'', JNum (Finite 5)), (''max'', JNum (Finite 10))])
       = \<lparr>status = False,
          messages =
            [\<lparr>message = Joined [JStr ''Value needs to be larger than or equal to'',
                                 JNum (Finite 5)] '' '',
              val = JNum (Finite 3)\<rparr>]\<rparr>
   \<and> \<not> isNumeric (JBool True)
   \<and> numberMinMaxValidation (JBool True)
        (JObj [(''type'', JStr ''NUMBER''), (''min'', JNum (Finite 5)), (''max'', JNum (Finite 10))])
       = \<lparr>status = True, messages = []\<rparr>"
  using
    numeric_bounds
      [of "JNum (Finite 3)"
          "JObj [(''type'', JStr ''NUMBER''), (''min'', JNum (Finite 5)), (''max'', JNum (Finite 10))]"]
    numeric_bounds
      [of "JBool True"
          "JObj [(''type'', JStr ''NUMBER''), (''min'', JNum (Finite 5)), (''max'', JNum (Finite 10))]"]
  by (simp add: js_lt_def js_gt_def relational_def)

subsection \<open>The rule must be an object\<close>

text \<open>
  Claim C6: when the first argument is not an object, \<open>validate\<close> raises a
  \<open>TypeError\<close> and returns no result; when it is an object, \<open>validate\<close> does not raise
  and returns a result.
\<close>

theorem rule_must_be_object:
  "(\<not> isObject rule \<longrightarrow>
      validate s rule v = (Inl (TypeError ''validationSettings should be of type object''), s))
   \<and> (isObject rule \<longrightarrow> (\<exists>result s'. validate s rule v = (Inr result, s')))"
  by (simp add: validate_def Let_def split_beta)

theorem rule_must_be_object_witness:
  "\<not> isObject (JStr ''INTEGER'')
   \<and> validate loaded (JStr ''INTEGER'') (JNum (Finite 3))
       = (Inl (TypeError ''validationSettings should be of type object''), loaded)
   \<and> isObject (JObj [(''type'', JStr ''INTEGER'')])
   \<and> (\<exists>result s'. validate loaded (JObj [(''type'', JStr ''INTEGER'')]) (JNum (Finite 3))
                     = (Inr result, s'))"
  using rule_must_be_object [of "JStr ''INTEGER''" loaded "JNum (Finite 3)"]
    rule_must_be_object [of "JObj [(''type'', JStr ''INTEGER'')]" loaded "JNum (Finite 3)"]
  by simp

subsection \<open>Unknown type tags\<close>




text \<open>
  The tag \<open>['PHONENUMBER']\<close> is no type tag (the switch compares with \<open>===\<close>) and yet
  converts to the key \<open>PHONENUMBER\<close>: the phone-number validator runs, and the assignment
  to \<open>result.status\<close> in \<open>typeSpecificValidation\<close> replaces the \<open>false\<close> of the type check.
\<close>

lemma array_tag_reaches_phone_validator:
  "JArr [JStr ''PHONENUMBER''] \<notin> JStr ` set TypeTag
   \<and> validate loaded (JObj [(''type'', JArr [JStr ''PHONENUMBER''])]) (JStr ''+47 123'')
       = (Inr \<lparr>status = True,
               messages = [\<lparr>message = Lit ''This is not a valid type'', val = JStr ''+47 123''\<rparr>]\<rparr>,
          loaded\<lparr>logger := [[JStr ''No type validator found for'', JArr [JStr ''PHONENUMBER'']]]\<rparr>)"
  by (auto simp: check_defs)

subsection \<open>Validation against the schema\<close>




subsection \<open>Repeated calls\<close>

text \<open>
  Claim C9: a call of \<open>validate\<close> leaves the table of type specific validations as it
  was, and a second call with the same rule and value, made in the state the first call
  left, returns the same result. The one thing a call changes is the list of calls the
  logger has received, which \<open>validate\<close> never reads.
\<close>

theorem validate_is_repeatable:
  "fst (validate (snd (validate s rule v)) rule v) = fst (validate s rule v)
   \<and> typeSpecificValidations (snd (validate s rule v)) = typeSpecificValidations s
   \<and> (\<exists>calls. snd (validate s rule v) = s\<lparr>logger := logger s @ calls\<rparr>)"
  using validate_same_registry [OF validate_registry] validate_registry validate_only_logs
  by blast

theorem validate_is_repeatable_witness:
  "fst (validate (snd (validate loaded (JObj [(''type'', JStr ''FOOBAR'')]) (JStr ''abc'')))
          (JObj [(''type'', JStr ''FOOBAR'')]) (JStr ''abc''))
     = Inr \<lparr>status = False,
            messages = [\<lparr>message = Lit ''This is not a valid type'', val = JStr ''abc''\<rparr>]\<rparr>
   \<and> typeSpecificValidations
        (snd (validate loaded (JObj [(''type'', JStr ''FOOBAR'')]) (JStr ''abc'')))
       = typeSpecificValidations loaded
   \<and> (\<exists>calls. snd (validate loaded (JObj [(''type'', JStr ''FOOBAR'')]) (JStr ''abc''))
                 = loaded\<lparr>logger := logger loaded @ calls\<rparr>)"
proof -
  have "fst (validate loaded (JObj [(''type'', JStr ''FOOBAR'')]) (JStr ''abc''))
          = Inr \<lparr>status = False,
                 messages = [\<lparr>message = Lit ''This is not a valid type'', val = JStr ''abc''\<rparr>]\<rparr>"
    by (simp add: check_defs)
  then show ?thesis
    using validate_is_repeatable [of loaded "JObj [(''type'', JStr ''FOOBAR'')]" "JStr ''abc''"]
    by simp
qed

subsection \<open>The short-circuit needs \<open>required === false\<close>\<close>

text \<open>
  Claim C10: the short-circuit is taken only when \<open>required\<close> is strictly \<open>false\<close>. For a
  rule object whose \<open>required\<close> is anything else (absent, or truthy), every value, falsy
  ones included, goes through the type check, the bounds checks and the type specific
  check. Three falsy values show each check at work: \<open>validate({type: 'INTEGER'}, null)\<close>
  fails the type check; \<open>validate({type: 'NUMBER', min: 5}, 0)\<close> passes the type check
  and fails the numeric bound; \<open>validate({type: 'PHONENUMBER', required: true}, '')\<close>
  passes the type check and the bounds and fails the phone-number validator.
\<close>

theorem required_not_false_runs_all_checks:
  "(isObject rule \<and> js_prop rule ''required'' \<noteq> JBool False \<longrightarrow>
      validate s rule v =
        (let (ok, s') = typeValidation s v (js_prop rule ''type'');
             typed = (if ok then \<lparr>status = True, messages = []\<rparr>
                      else \<lparr>status = False,
                            messages = [\<lparr>message = Lit ''This is not a valid type'', val = v\<rparr>]\<rparr>)
         in (Inr (typeSpecificValidation s' (minMaxValidation typed v rule) v (js_prop rule ''type'')),
             s')))
   \<and> validate loaded (JObj [(''type'', JStr ''INTEGER'')]) JNull
       = (Inr \<lparr>status = False,
               messages = [\<lparr>message = Lit ''This is not a valid type'', val = JNull\<rparr>]\<rparr>,
          loaded)
   \<and> validate loaded (JObj [(''type'', JStr ''NUMBER''), (''min'', JNum (Finite 5))]) (JNum (Finite 0))
       = (Inr \<lparr>status = False,
               messages =
                 [\<lparr>message = Joined [JStr ''Value needs to be larger than or equal to'',
                                      JNum (Finite 5)] '' '',
                   val = JNum (Finite 0)\<rparr>]\<rparr>,
          loaded)
   \<and> validate loaded (JObj [(''type'', JStr ''PHONENUMBER''), (''required'', JBool True)]) (JStr [])
       = (Inr \<lparr>status = False,
               messages =
                 [\<lparr>message = Lit ''Phone number can only consist of numbers and + and [space]'',
                   val = JStr []\<rparr>]\<rparr>,
          loaded)"
proof (intro conjI impI)
  show "validate loaded (JObj [(''type'', JStr ''INTEGER'')]) JNull
       = (Inr \<lparr>status = False,
               messages = [\<lparr>message = Lit ''This is not a valid type'', val = JNull\<rparr>]\<rparr>,
          loaded)"
    by (simp add: check_defs)
  show "validate loaded (JObj [(''type'', JStr ''NUMBER''), (''min'', JNum (Finite 5))]) (JNum (Finite 0))
       = (Inr \<lparr>status = False,
               messages =
                 [\<lparr>message = Joined [JStr ''Value needs to be larger than or equal to'',
                                      JNum (Finite 5)] '' '',
                   val = JNum (Finite 0)\<rparr>]\<rparr>,
          loaded)"
    by (simp add: check_defs)
  show "validate loaded (JObj [(''type'', JStr ''PHONENUMBER''), (''required'', JBool True)]) (JStr [])
       = (Inr \<lparr>status = False,
               messages =
                 [\<lparr>message = Lit ''Phone number can only consist of numbers and + and [space]'',
                   val = JStr []\<rparr>]\<rparr>,
          loaded)"
    by (simp add: check_defs)
qed (simp add: validate_def Let_def split_beta fail_with_def)

theorem required_not_false_runs_all_checks_witness:
  "isObject (JObj [(''type'', JStr ''PHONENUMBER''), (''min'', JNum (Finite 3)), (''required'', JNum (Finite 1))])
   \<and> js_prop (JObj [(''type'', JStr ''PHONENUMBER''), (''min'', JNum (Finite 3)),
                     (''required'', JNum (Finite 1))]) ''required'' \<noteq> JBool False
   \<and> \<not> truthy (JBool False)
   \<and> validate loaded
        (JObj [(''type'', JStr ''PHONENUMBER''), (''min'', JNum (Finite 3)), (''required'', JNum (Finite 1))])
        (JBool False)
       = (Inr \<lparr>status = False,
               messages =
                 [\<lparr>message = Lit ''This is not a valid type'', val = JBool False\<rparr>,
                  \<lparr>message = Lit ''Phone number can only consist of numbers and + and [space]'',
                   val = JBool False\<rparr>]\<rparr>,
          loaded)"
  using required_not_false_runs_all_checks
    [of "JObj [(''type'', JStr ''PHONENUMBER''), (''min'', JNum (Finite 3)), (''required'', JNum (Finite 1))]"
        loaded "JBool False"]
  by (simp add: check_defs)

end
